theory Spec2Isabelle
  imports Main "HOL-Library.Word" "HOL-Library.Sublist"
begin

section \<open>Go values the client handles\<close>

text \<open>
  The package \<open>zsa\<close> (file \<open>client.go\<close>) wraps the gRPC stub of the Keymapp
  service. The embedding follows the file function by function. Everything the Go code
  reaches outside itself is explicit here: the gRPC stub and the dialler are functions
  on a state \<open>'w\<close> (the network and the service), the process environment is a map,
  \<open>runtime.GOOS\<close> is a string.
\<close>

type_synonym int32 = "32 word"
type_synonym uint32 = "32 word"

text \<open>
  The conversion \<open>int32(r)\<close> of a \<open>uint32\<close> keeps the 32 bits; an \<open>int32\<close> is read
  with \<open>sint\<close>, a \<open>uint32\<close> with \<open>uint\<close>.
\<close>

definition int32 :: "uint32 \<Rightarrow> int32" where
  "int32 r = ucast r"

text \<open>
  A Go \<open>error\<close> is an interface value; \<open>nil\<close> is \<open>None\<close> of \<open>error option\<close>.
  \<open>External\<close> is an error made outside the package (what a stub or the dialler
  returns), known by its message; the other three are the errors the package makes
  itself, with \<open>errors.New\<close>, \<open>fmt.Errorf\<close> and \<open>errors.Join\<close>.
\<close>

datatype error =
    External string
  | ErrorsNew string
  | FmtErrorf string
  | JoinError "error list"

text \<open>\<open>strings.Join(elems, sep)\<close>.\<close>

fun strings_Join :: "string list \<Rightarrow> string \<Rightarrow> string" where
  "strings_Join [] sep = []"
| "strings_Join [x] sep = x"
| "strings_Join (x # y # ys) sep = x @ sep @ strings_Join (y # ys) sep"

text \<open>
  The method \<open>Error()\<close>. A joined error prints its members' messages separated by a
  newline.
\<close>

fun Error :: "error \<Rightarrow> string" where
  "Error (External m) = m"
| "Error (ErrorsNew m) = m"
| "Error (FmtErrorf m) = m"
| "Error (JoinError es) = strings_Join (map Error es) [CHR 0x0A]"

text \<open>
  \<open>errors.Join(errs...)\<close>: \<open>nil\<close> when no argument is non-nil, otherwise a joined
  error holding the non-nil arguments in order.
\<close>

definition errors_Join :: "error option list \<Rightarrow> error option" where
  "errors_Join errs =
     (let es = List.map_filter (\<lambda>e. e) errs
      in if es = [] then None else Some (JoinError es))"

text \<open>\<open>strings.HasPrefix\<close> and \<open>strings.Contains\<close>, on bytes.\<close>

fun HasPrefix :: "string \<Rightarrow> string \<Rightarrow> bool" where
  "HasPrefix s [] = True"
| "HasPrefix [] (p # ps) = False"
| "HasPrefix (c # cs) (p # ps) = (c = p \<and> HasPrefix cs ps)"

fun Contains :: "string \<Rightarrow> string \<Rightarrow> bool" where
  "Contains [] substr = HasPrefix [] substr"
| "Contains (c # cs) substr = (HasPrefix (c # cs) substr \<or> Contains cs substr)"

section \<open>Requests and responses\<close>

text \<open>
  The request messages of package \<open>api\<close> that \<open>client.go\<close> builds, each with the
  fields the file sets, in the order of its struct literals:
  \<open>SetRGBLedRequest led red green blue sustain\<close>,
  \<open>SetRGBAllRequest red green blue sustain\<close>,
  \<open>SetStatusLedRequest led on sustain\<close>.
\<close>

datatype request =
    ConnectAnyKeyboardRequest
  | ConnectKeyboardRequest int32
  | DisconnectKeyboardRequest
  | SetLayerRequest int32
  | SetRGBLedRequest int32 int32 int32 int32 int32
  | SetRGBAllRequest int32 int32 int32 int32
  | SetStatusLedRequest int32 bool int32
  | IncreaseBrightnessRequest
  | DecreaseBrightnessRequest

text \<open>
  What the verb \<open>%T\<close> prints for \<open>parameters\<close>: every call site passes the address
  of a struct literal, so the type is a pointer into package \<open>api\<close>.
\<close>

fun typeName :: "request \<Rightarrow> string" where
  "typeName ConnectAnyKeyboardRequest = ''*api.ConnectAnyKeyboardRequest''"
| "typeName (ConnectKeyboardRequest i) = ''*api.ConnectKeyboardRequest''"
| "typeName DisconnectKeyboardRequest = ''*api.DisconnectKeyboardRequest''"
| "typeName (SetLayerRequest l) = ''*api.SetLayerRequest''"
| "typeName (SetRGBLedRequest l r g b s) = ''*api.SetRGBLedRequest''"
| "typeName (SetRGBAllRequest r g b s) = ''*api.SetRGBAllRequest''"
| "typeName (SetStatusLedRequest l on s) = ''*api.SetStatusLedRequest''"
| "typeName IncreaseBrightnessRequest = ''*api.IncreaseBrightnessRequest''"
| "typeName DecreaseBrightnessRequest = ''*api.DecreaseBrightnessRequest''"

text \<open>
  The interface \<open>successResponse\<close>: a value of it is known by what its one method
  returns.
\<close>

record successResponse =
  GetSuccess :: bool

text \<open>
  A stub method: it takes the context and the request, and returns the response and
  the error of the Go pair \<open>(T, error)\<close>, with the new state of the world.
\<close>

type_synonym ('ctx, 'w) rpc =
  "'ctx \<Rightarrow> request \<Rightarrow> 'w \<Rightarrow> (successResponse \<times> error option) \<times> 'w"

section \<open>The response normalizer\<close>

definition wrapSuccessToError ::
  "'ctx \<Rightarrow> ('ctx, 'w) rpc \<Rightarrow> request \<Rightarrow> 'w \<Rightarrow> error option \<times> 'w" where
  "wrapSuccessToError ctx request parameters w =
     (case request ctx parameters w of
        ((res, err), w') \<Rightarrow>
          if err \<noteq> None then (err, w')
          else if \<not> GetSuccess res
            then (Some (FmtErrorf (''unsuccessful '' @ typeName parameters)), w')
          else (None, w'))"

section \<open>The client\<close>

text \<open>
  The methods of \<open>api.KeyboardServiceClient\<close> that go through the normalizer.
\<close>

record ('ctx, 'w) KeyboardServiceClient =
  api_ConnectAnyKeyboard :: "('ctx, 'w) rpc"
  api_ConnectKeyboard :: "('ctx, 'w) rpc"
  api_DisconnectKeyboard :: "('ctx, 'w) rpc"
  api_SetLayer :: "('ctx, 'w) rpc"
  api_UnsetLayer :: "('ctx, 'w) rpc"
  api_SetRGBLed :: "('ctx, 'w) rpc"
  api_SetRGBAll :: "('ctx, 'w) rpc"
  api_SetStatusLed :: "('ctx, 'w) rpc"
  api_IncreaseBrightness :: "('ctx, 'w) rpc"
  api_DecreaseBrightness :: "('ctx, 'w) rpc"

record ('ctx, 'w, 'conn) Client =
  client :: "('ctx, 'w) KeyboardServiceClient"
  connection :: 'conn

text \<open>
  The interface \<open>color.Color\<close>: the client only calls \<open>RGBA()\<close>, which returns red,
  green, blue and alpha.
\<close>

record Color =
  RGBA :: "uint32 \<times> uint32 \<times> uint32 \<times> uint32"

subsection \<open>Connecting and disconnecting a keyboard\<close>

definition ConnectAnyKeyboard ::
  "('ctx, 'w, 'conn) Client \<Rightarrow> 'ctx \<Rightarrow> 'w \<Rightarrow> error option \<times> 'w" where
  "ConnectAnyKeyboard c ctx w =
     (case wrapSuccessToError ctx (api_ConnectAnyKeyboard (client c))
             ConnectAnyKeyboardRequest w of
        (err, w') \<Rightarrow>
          if err \<noteq> None \<and> \<not> Contains (Error (the err)) ''keyboard already connected''
          then (err, w')
          else (None, w'))"

definition ConnectKeyboardIndex ::
  "('ctx, 'w, 'conn) Client \<Rightarrow> 'ctx \<Rightarrow> int32 \<Rightarrow> 'w \<Rightarrow> error option \<times> 'w" where
  "ConnectKeyboardIndex c ctx kid w =
     (case wrapSuccessToError ctx (api_ConnectKeyboard (client c))
             (ConnectKeyboardRequest kid) w of
        (err, w') \<Rightarrow>
          if err \<noteq> None \<and> \<not> Contains (Error (the err)) ''keyboard already connected''
          then (err, w')
          else (None, w'))"

definition DisconnectKeyboard ::
  "('ctx, 'w, 'conn) Client \<Rightarrow> 'ctx \<Rightarrow> 'w \<Rightarrow> error option \<times> 'w" where
  "DisconnectKeyboard c ctx w =
     (case wrapSuccessToError ctx (api_DisconnectKeyboard (client c))
             DisconnectKeyboardRequest w of
        (err, w') \<Rightarrow>
          if err \<noteq> None \<and> \<not> Contains (Error (the err)) ''no keyboard is connected''
          then (err, w')
          else (None, w'))"

subsection \<open>Layers, LEDs and brightness\<close>

definition SetLayer ::
  "('ctx, 'w, 'conn) Client \<Rightarrow> 'ctx \<Rightarrow> int32 \<Rightarrow> 'w \<Rightarrow> error option \<times> 'w" where
  "SetLayer c ctx layer w =
     wrapSuccessToError ctx (api_SetLayer (client c)) (SetLayerRequest layer) w"

definition UnsetLayer ::
  "('ctx, 'w, 'conn) Client \<Rightarrow> 'ctx \<Rightarrow> int32 \<Rightarrow> 'w \<Rightarrow> error option \<times> 'w" where
  "UnsetLayer c ctx layer w =
     wrapSuccessToError ctx (api_UnsetLayer (client c)) (SetLayerRequest layer) w"

text \<open>
  The loop of \<open>SetRGBLed\<close> over \<open>leds\<close>: \<open>errs\<close> is the slice the loop appends to.
\<close>

fun SetRGBLed_loop ::
  "('ctx, 'w, 'conn) Client \<Rightarrow> 'ctx \<Rightarrow> uint32 \<Rightarrow> uint32 \<Rightarrow> uint32 \<Rightarrow> int32 list \<Rightarrow>
     error list \<Rightarrow> 'w \<Rightarrow> error list \<times> 'w" where
  "SetRGBLed_loop c ctx r g b [] errs w = (errs, w)"
| "SetRGBLed_loop c ctx r g b (led # leds) errs w =
     (case wrapSuccessToError ctx (api_SetRGBLed (client c))
             (SetRGBLedRequest led (int32 r) (int32 g) (int32 b) 0) w of
        (err, w') \<Rightarrow>
          if err \<noteq> None then SetRGBLed_loop c ctx r g b leds (errs @ [the err]) w'
          else SetRGBLed_loop c ctx r g b leds errs w')"

definition SetRGBLed ::
  "('ctx, 'w, 'conn) Client \<Rightarrow> 'ctx \<Rightarrow> Color \<Rightarrow> int32 list \<Rightarrow> 'w \<Rightarrow> error option \<times> 'w" where
  "SetRGBLed c ctx color leds w =
     (case RGBA color of
        (r, g, b, _) \<Rightarrow>
          (case SetRGBLed_loop c ctx r g b leds [] w of
             (errs, w') \<Rightarrow> (errors_Join (map Some errs), w')))"

definition SetRGBAll ::
  "('ctx, 'w, 'conn) Client \<Rightarrow> 'ctx \<Rightarrow> Color \<Rightarrow> 'w \<Rightarrow> error option \<times> 'w" where
  "SetRGBAll c ctx color w =
     (case RGBA color of
        (r, g, b, _) \<Rightarrow>
          wrapSuccessToError ctx (api_SetRGBAll (client c))
            (SetRGBAllRequest (int32 r) (int32 g) (int32 b) 0) w)"

definition SetStatusLED ::
  "('ctx, 'w, 'conn) Client \<Rightarrow> 'ctx \<Rightarrow> int32 \<Rightarrow> bool \<Rightarrow> 'w \<Rightarrow> error option \<times> 'w" where
  "SetStatusLED c ctx led on w =
     wrapSuccessToError ctx (api_SetStatusLed (client c)) (SetStatusLedRequest led on 0) w"

definition IncreaseBrightness ::
  "('ctx, 'w, 'conn) Client \<Rightarrow> 'ctx \<Rightarrow> 'w \<Rightarrow> error option \<times> 'w" where
  "IncreaseBrightness c ctx w =
     wrapSuccessToError ctx (api_IncreaseBrightness (client c)) IncreaseBrightnessRequest w"

definition DecreaseBrightness ::
  "('ctx, 'w, 'conn) Client \<Rightarrow> 'ctx \<Rightarrow> 'w \<Rightarrow> error option \<times> 'w" where
  "DecreaseBrightness c ctx w =
     wrapSuccessToError ctx (api_DecreaseBrightness (client c)) DecreaseBrightnessRequest w"

section \<open>Connecting to the service\<close>

text \<open>
  \<open>os.Getenv\<close> reads the process environment, a map from names to values: a
  variable that is not there reads as the empty string, as does one set to it.
\<close>

definition os_Getenv :: "(string \<rightharpoonup> string) \<Rightarrow> string \<Rightarrow> string" where
  "os_Getenv env key = (case env key of None \<Rightarrow> [] | Some v \<Rightarrow> v)"

text \<open>
  \<open>filepath.Join\<close> of the standard library where the separator is the slash (every
  platform of the branch that calls it): the elements from the first non-empty one on
  are joined with slashes and the result is cleaned. \<open>Clean\<close> works on the path's
  elements: empty elements and \<open>.\<close> are dropped, \<open>..\<close> removes the element before
  it, stays when there is none to remove, and is dropped at the root.
\<close>

fun splitSlash :: "string \<Rightarrow> string \<Rightarrow> string list" where
  "splitSlash cur [] = [rev cur]"
| "splitSlash cur (c # cs) =
     (if c = CHR ''/'' then rev cur # splitSlash [] cs else splitSlash (c # cur) cs)"

fun cleanElems :: "bool \<Rightarrow> string list \<Rightarrow> string list \<Rightarrow> string list" where
  "cleanElems rooted out [] = rev out"
| "cleanElems rooted out (e # es) =
     (if e = [] \<or> e = ''.'' then cleanElems rooted out es
      else if e = ''..'' then
        (case out of
           [] \<Rightarrow> if rooted then cleanElems rooted out es else cleanElems rooted [e] es
         | prev # below \<Rightarrow>
             if prev = ''..'' then cleanElems rooted (e # out) es
             else cleanElems rooted below es)
      else cleanElems rooted (e # out) es)"

definition Clean :: "string \<Rightarrow> string" where
  "Clean path =
     (if path = [] then ''.''
      else
        let rooted = (hd path = CHR ''/'');
            body = strings_Join (cleanElems rooted [] (splitSlash [] path)) ''/''
        in if rooted then CHR ''/'' # body
           else if body = [] then ''.'' else body)"

definition filepath_Join :: "string list \<Rightarrow> string" where
  "filepath_Join elem =
     (case dropWhile (\<lambda>e. e = []) elem of
        [] \<Rightarrow> []
      | e # es \<Rightarrow> Clean (strings_Join (e # es) ''/''))"

text \<open>
  The options \<open>Connect\<close> gives the dialler, and what \<open>client.go\<close> takes from outside:
  \<open>runtime.GOOS\<close>, the environment, \<open>grpc.NewClient\<close> and
  \<open>api.NewKeyboardServiceClient\<close>.
\<close>

datatype TransportCredentials = insecure_NewCredentials

datatype DialOption = WithTransportCredentials TransportCredentials

record ('ctx, 'w, 'conn) platform =
  GOOS :: string
  environ :: "string \<rightharpoonup> string"
  grpc_NewClient :: "string \<Rightarrow> DialOption list \<Rightarrow> 'w \<Rightarrow> ('conn \<times> error option) \<times> 'w"
  NewKeyboardServiceClient :: "'conn \<Rightarrow> ('ctx, 'w) KeyboardServiceClient"

definition Connect ::
  "('ctx, 'w, 'conn) platform \<Rightarrow> string \<Rightarrow> 'w \<Rightarrow>
     (('ctx, 'w, 'conn) Client option \<times> error option) \<times> 'w" where
  "Connect sys path w =
     (case grpc_NewClient sys path [WithTransportCredentials insecure_NewCredentials] w of
        ((conn, err), w') \<Rightarrow>
          if err \<noteq> None then ((None, err), w')
          else ((Some \<lparr>client = NewKeyboardServiceClient sys conn, connection = conn\<rparr>,
                 None), w'))"

definition ConnectDefault ::
  "('ctx, 'w, 'conn) platform \<Rightarrow> 'w \<Rightarrow>
     (('ctx, 'w, 'conn) Client option \<times> error option) \<times> 'w" where
  "ConnectDefault sys w =
     (if GOOS sys = ''windows'' then Connect sys ''localhost:50051'' w
      else
        let config_dir = os_Getenv (environ sys) ''CONFIG_DIR''
        in if config_dir = []
           then ((None, Some (ErrorsNew ''environment key \"CONFIG_DIR\" not set'')), w)
           else Connect sys (filepath_Join [config_dir, ''.keymapp'', ''keymapp.sock'']) w)"

section \<open>Observing the calls\<close>

text \<open>
  To say which requests a method issues, a stub is instrumented: \<open>traced f\<close> behaves
  as \<open>f\<close> and appends every request it receives to a log kept beside the state.
  \<open>dial_traced\<close> does the same for the dialler, logging the target.
\<close>

definition traced :: "('ctx, 'w) rpc \<Rightarrow> ('ctx, request list \<times> 'w) rpc" where
  "traced f ctx q lw =
     (case lw of (log, w) \<Rightarrow> (case f ctx q w of (out, w') \<Rightarrow> (out, (log @ [q], w'))))"

definition traced_client ::
  "('ctx, 'w) KeyboardServiceClient \<Rightarrow> ('ctx, request list \<times> 'w) KeyboardServiceClient" where
  "traced_client k =
     \<lparr>api_ConnectAnyKeyboard = traced (api_ConnectAnyKeyboard k),
      api_ConnectKeyboard = traced (api_ConnectKeyboard k),
      api_DisconnectKeyboard = traced (api_DisconnectKeyboard k),
      api_SetLayer = traced (api_SetLayer k),
      api_UnsetLayer = traced (api_UnsetLayer k),
      api_SetRGBLed = traced (api_SetRGBLed k),
      api_SetRGBAll = traced (api_SetRGBAll k),
      api_SetStatusLed = traced (api_SetStatusLed k),
      api_IncreaseBrightness = traced (api_IncreaseBrightness k),
      api_DecreaseBrightness = traced (api_DecreaseBrightness k)\<rparr>"

definition dial_traced ::
  "(string \<Rightarrow> DialOption list \<Rightarrow> 'w \<Rightarrow> ('conn \<times> error option) \<times> 'w) \<Rightarrow>
     string \<Rightarrow> DialOption list \<Rightarrow> string list \<times> 'w \<Rightarrow>
     ('conn \<times> error option) \<times> string list \<times> 'w" where
  "dial_traced nc target opts lw =
     (case lw of (log, w) \<Rightarrow>
        (case nc target opts w of (out, w') \<Rightarrow> (out, (log @ [target], w'))))"

text \<open>
  The reference for a method that sends several requests: every request of the list
  is sent through the normalizer, in order, whatever the earlier ones returned, and
  the result of each is kept.
\<close>

fun responses ::
  "'ctx \<Rightarrow> ('ctx, 'w) rpc \<Rightarrow> request list \<Rightarrow> 'w \<Rightarrow> error option list \<times> 'w" where
  "responses ctx f [] w = ([], w)"
| "responses ctx f (q # qs) w =
     (case wrapSuccessToError ctx f q w of
        (err, w') \<Rightarrow>
          (case responses ctx f qs w' of (errs, w'') \<Rightarrow> (err # errs, w'')))"

text \<open>
  Mocked stubs for concrete runs: the outcome of a call is a function of the request
  alone and the state is untouched.
\<close>

definition mock_rpc :: "(request \<Rightarrow> successResponse \<times> error option) \<Rightarrow> ('ctx, 'w) rpc" where
  "mock_rpc f ctx q w = (f q, w)"

definition mock_client ::
  "(request \<Rightarrow> successResponse \<times> error option) \<Rightarrow> ('ctx, 'w) KeyboardServiceClient" where
  "mock_client f =
     \<lparr>api_ConnectAnyKeyboard = mock_rpc f,
      api_ConnectKeyboard = mock_rpc f,
      api_DisconnectKeyboard = mock_rpc f,
      api_SetLayer = mock_rpc f,
      api_UnsetLayer = mock_rpc f,
      api_SetRGBLed = mock_rpc f,
      api_SetRGBAll = mock_rpc f,
      api_SetStatusLed = mock_rpc f,
      api_IncreaseBrightness = mock_rpc f,
      api_DecreaseBrightness = mock_rpc f\<rparr>"

definition mock_dial ::
  "string \<Rightarrow> DialOption list \<Rightarrow> 'w \<Rightarrow> (string \<times> error option) \<times> 'w" where
  "mock_dial target opts w = ((target, None), w)"

text \<open>
  A mocked platform: the dialler always succeeds, logs its target and returns the
  target as the connection; the service it connects to answers every request with
  success.
\<close>

definition mock_platform ::
  "string \<Rightarrow> (string \<rightharpoonup> string) \<Rightarrow> (unit, string list \<times> unit, string) platform" where
  "mock_platform goos env =
     \<lparr>GOOS = goos, environ = env, grpc_NewClient = dial_traced mock_dial,
      NewKeyboardServiceClient = (\<lambda>conn. mock_client (\<lambda>q. (\<lparr>GetSuccess = True\<rparr>, None)))\<rparr>"

text \<open>
  A mocked service on which the LED \<open>bad\<close> cannot be set: the call for it fails,
  every other call succeeds.
\<close>

definition led_fails :: "int32 \<Rightarrow> request \<Rightarrow> successResponse \<times> error option" where
  "led_fails bad q =
     (case q of
        SetRGBLedRequest led r g b s \<Rightarrow>
          if led = bad then (\<lparr>GetSuccess = False\<rparr>, Some (External ''led unreachable''))
          else (\<lparr>GetSuccess = True\<rparr>, None)
      | _ \<Rightarrow> (\<lparr>GetSuccess = True\<rparr>, None))"

section \<open>Facts about the library functions\<close>

subsection \<open>Strings\<close>

lemma HasPrefix_prefix: "HasPrefix s p = prefix p s"
  by (induction s p rule: HasPrefix.induct) auto

lemma Contains_sublist: "Contains s substr = sublist substr s"
proof (induction s)
  case Nil
  show ?case by (cases substr) simp_all
next
  case (Cons c cs)
  show ?case
  proof (cases substr)
    case Nil
    then show ?thesis by simp
  next
    case (Cons p ps)
    with Cons.IH show ?thesis
      by (simp add: HasPrefix_prefix sublist_code)
  qed
qed

lemma Contains_append: "Contains (pre @ substr @ post) substr"
  by (simp add: Contains_sublist)

subsection \<open>The normalizer, plain and traced\<close>

lemma wrapSuccessToError_cases:
  assumes "request ctx parameters w = ((res, err), w')"
  shows "wrapSuccessToError ctx request parameters w =
           (if err \<noteq> None then err
            else if GetSuccess res then None
            else Some (FmtErrorf (''unsuccessful '' @ typeName parameters)), w')"
  using assms by (simp add: wrapSuccessToError_def)

lemma wrapSuccessToError_traced:
  "wrapSuccessToError ctx (traced f) q (log, w) =
     (fst (wrapSuccessToError ctx f q w), (log @ [q], snd (wrapSuccessToError ctx f q w)))"
  by (simp add: wrapSuccessToError_def traced_def split: prod.splits)

lemma responses_traced:
  "responses ctx (traced f) qs (log, w) =
     (fst (responses ctx f qs w), (log @ qs, snd (responses ctx f qs w)))"
proof (induction qs arbitrary: log w)
  case Nil
  show ?case by simp
next
  case (Cons q qs)
  show ?case
    by (simp add: wrapSuccessToError_traced Cons.IH split: prod.splits)
qed

lemma length_responses: "length (fst (responses ctx f qs w)) = length qs"
proof (induction qs arbitrary: w)
  case Nil
  show ?case by simp
next
  case (Cons q qs)
  obtain err w' where 1: "wrapSuccessToError ctx f q w = (err, w')"
    by (cases "wrapSuccessToError ctx f q w")
  obtain errs w'' where 2: "responses ctx f qs w' = (errs, w'')"
    by (cases "responses ctx f qs w'")
  from Cons.IH [of w'] 2 have "length errs = length qs" by simp
  with 1 2 show ?case by simp
qed

subsection \<open>Joining errors\<close>

lemma map_filter_Some: "List.map_filter (\<lambda>e. e) (map Some es) = es"
  by (induction es) simp_all

lemma map_filter_append:
  "List.map_filter f (xs @ ys) = List.map_filter f xs @ List.map_filter f ys"
  by (simp add: List.map_filter_def)

lemma errors_Join_Nil: "errors_Join [] = None"
  by (simp add: errors_Join_def)

lemma errors_Join_map_filter:
  "errors_Join (map Some (List.map_filter (\<lambda>e. e) rs)) = errors_Join rs"
  by (simp add: errors_Join_def map_filter_Some)

lemma map_filter_all_None:
  "\<forall>j<length rs. rs ! j = None \<Longrightarrow> List.map_filter (\<lambda>e. e) rs = []"
proof (induction rs)
  case Nil
  show ?case by simp
next
  case (Cons r rs)
  from Cons.prems have "r = None" by auto
  moreover from Cons.prems have "\<forall>j<length rs. rs ! j = None" by auto
  ultimately show ?case using Cons.IH by simp
qed

lemma map_filter_single:
  assumes "i < length rs" and "rs ! i = Some e"
    and "\<forall>j<length rs. j \<noteq> i \<longrightarrow> rs ! j = None"
  shows "List.map_filter (\<lambda>e. e) rs = [e]"
proof -
  have rs: "rs = take i rs @ Some e # drop (Suc i) rs"
    using assms(1,2) by (metis id_take_nth_drop)
  have "\<forall>j<length (take i rs). take i rs ! j = None"
    using assms(1,3) by simp
  then have a: "List.map_filter (\<lambda>e. e) (take i rs) = []"
    by (rule map_filter_all_None)
  have "\<forall>j<length (drop (Suc i) rs). drop (Suc i) rs ! j = None"
    using assms(1,3) by simp
  then have b: "List.map_filter (\<lambda>e. e) (drop (Suc i) rs) = []"
    by (rule map_filter_all_None)
  have "List.map_filter (\<lambda>e. e) rs =
          List.map_filter (\<lambda>e. e) (take i rs @ Some e # drop (Suc i) rs)"
    using rs by simp
  also have "\<dots> = [e]"
    by (simp only: map_filter_append List.map_filter_simps a b) simp
  finally show ?thesis .
qed

lemma errors_Join_single:
  assumes "i < length rs" and "rs ! i = Some e"
    and "\<forall>j<length rs. j \<noteq> i \<longrightarrow> rs ! j = None"
  shows "errors_Join rs = Some (JoinError [e])"
  using map_filter_single [OF assms] by (simp add: errors_Join_def)

subsection \<open>The loop of SetRGBLed\<close>

lemma SetRGBLed_loop_responses:
  "SetRGBLed_loop c ctx r g b leds errs w =
     (errs @ List.map_filter (\<lambda>e. e)
        (fst (responses ctx (api_SetRGBLed (client c))
           (map (\<lambda>led. SetRGBLedRequest led (int32 r) (int32 g) (int32 b) 0) leds) w)),
      snd (responses ctx (api_SetRGBLed (client c))
           (map (\<lambda>led. SetRGBLedRequest led (int32 r) (int32 g) (int32 b) 0) leds) w))"
proof (induction leds arbitrary: errs w)
  case Nil
  show ?case by simp
next
  case (Cons led leds)
  show ?case
    by (auto simp add: Cons.IH split: prod.splits)
qed

lemma SetRGBLed_responses:
  assumes "RGBA color = (r, g, b, a)"
  shows "SetRGBLed c ctx color leds w =
     (errors_Join (fst (responses ctx (api_SetRGBLed (client c))
        (map (\<lambda>led. SetRGBLedRequest led (int32 r) (int32 g) (int32 b) 0) leds) w)),
      snd (responses ctx (api_SetRGBLed (client c))
        (map (\<lambda>led. SetRGBLedRequest led (int32 r) (int32 g) (int32 b) 0) leds) w))"
  using assms
  by (simp add: SetRGBLed_def SetRGBLed_loop_responses errors_Join_map_filter)

subsection \<open>Channel values\<close>

lemma int32_value: "uint r < 2 ^ 31 \<Longrightarrow> sint (int32 r) = uint r"
proof -
  assume less: "uint r < 2 ^ 31"
  have "sint (int32 r) = signed_take_bit 31 (uint r)"
    by (simp add: int32_def sint_uint)
  also have "\<dots> = uint r"
  proof (rule signed_take_bit_int_eq_self)
    have "(0::int) \<le> uint r" by simp
    moreover have "- (2 ^ 31) \<le> (0::int)" by simp
    ultimately show "- (2 ^ 31) \<le> uint r" by (rule order_trans [rotated])
    show "uint r < 2 ^ 31" by (rule less)
  qed
  finally show ?thesis .
qed

section \<open>Claims about the response normalizer\<close>

text \<open>
  Claim C1. When the call returns no error and the response's success indicator is
  false, \<open>wrapSuccessToError\<close> returns a non-nil error whose message is
  \<open>unsuccessful\<close> followed by the request's type name, so the message names the
  request's type.
\<close>

theorem wrapSuccessToError_unsuccessful:
  assumes "request ctx parameters w = ((res, None), w')"
    and "\<not> GetSuccess res"
  shows "\<exists>e. wrapSuccessToError ctx request parameters w = (Some e, w') \<and>
           Error e = ''unsuccessful '' @ typeName parameters \<and>
           sublist (typeName parameters) (Error e)"
proof -
  let ?e = "FmtErrorf (''unsuccessful '' @ typeName parameters)"
  have "wrapSuccessToError ctx request parameters w = (Some ?e, w')"
    using assms by (simp add: wrapSuccessToError_cases)
  moreover have "Error ?e = ''unsuccessful '' @ typeName parameters"
    by simp
  moreover have "sublist (typeName parameters) (Error ?e)"
  proof -
    have "sublist (typeName parameters) (''unsuccessful '' @ typeName parameters @ [])"
      by (rule sublist_appendI)
    then show ?thesis by simp
  qed
  ultimately show ?thesis by blast
qed

text \<open>A mocked \<open>SetLayer\<close> call answered with success = false.\<close>

theorem wrapSuccessToError_unsuccessful_witness:
  "mock_rpc (\<lambda>q. (\<lparr>GetSuccess = False\<rparr>, None)) () (SetLayerRequest 3) () =
     ((\<lparr>GetSuccess = False\<rparr>, None), ()) \<and>
   \<not> GetSuccess \<lparr>GetSuccess = False\<rparr> \<and>
   (\<exists>e. wrapSuccessToError () (mock_rpc (\<lambda>q. (\<lparr>GetSuccess = False\<rparr>, None)))
          (SetLayerRequest 3) () = (Some e, ()) \<and>
        Error e = ''unsuccessful *api.SetLayerRequest'' \<and>
        sublist ''*api.SetLayerRequest'' (Error e))"
proof -
  have h1: "mock_rpc (\<lambda>q. (\<lparr>GetSuccess = False\<rparr>, None)) () (SetLayerRequest 3) () =
     ((\<lparr>GetSuccess = False\<rparr>, None), ())"
    by (simp add: mock_rpc_def)
  have h2: "\<not> GetSuccess \<lparr>GetSuccess = False\<rparr>"
    by simp
  show ?thesis
    using h1 h2
      wrapSuccessToError_unsuccessful
        [where request = "mock_rpc (\<lambda>q. (\<lparr>GetSuccess = False\<rparr>, None))" and ctx = "()"
           and parameters = "SetLayerRequest 3" and w = "()", OF h1 h2]
    by simp
qed

text \<open>
  Claim C2. \<open>wrapSuccessToError\<close> returns nil exactly when the call returns no error
  and the response's success indicator is true; an error of the call is returned as it
  is.
\<close>

theorem wrapSuccessToError_nil_iff:
  assumes "request ctx parameters w = ((res, err), w')"
  shows "(fst (wrapSuccessToError ctx request parameters w) = None) = (err = None \<and> GetSuccess res) \<and>
         (err \<noteq> None \<longrightarrow> wrapSuccessToError ctx request parameters w = (err, w'))"
  using assms by (simp add: wrapSuccessToError_cases)

text \<open>A successful call, and a call that fails with \<open>connection refused\<close>.\<close>

theorem wrapSuccessToError_nil_iff_witness:
  "wrapSuccessToError () (mock_rpc (\<lambda>q. (\<lparr>GetSuccess = True\<rparr>, None))) (SetLayerRequest 3) () =
     (None, ()) \<and>
   wrapSuccessToError ()
     (mock_rpc (\<lambda>q. (\<lparr>GetSuccess = True\<rparr>, Some (External ''connection refused''))))
     IncreaseBrightnessRequest () = (Some (External ''connection refused''), ())"
proof -
  have h1: "mock_rpc (\<lambda>q. (\<lparr>GetSuccess = True\<rparr>, None)) () (SetLayerRequest 3) () =
     ((\<lparr>GetSuccess = True\<rparr>, None), ())"
    by (simp add: mock_rpc_def)
  have h2: "mock_rpc (\<lambda>q. (\<lparr>GetSuccess = True\<rparr>, Some (External ''connection refused''))) ()
      IncreaseBrightnessRequest () =
     ((\<lparr>GetSuccess = True\<rparr>, Some (External ''connection refused'')), ())"
    by (simp add: mock_rpc_def)
  have "fst (wrapSuccessToError () (mock_rpc (\<lambda>q. (\<lparr>GetSuccess = True\<rparr>, None)))
          (SetLayerRequest 3) ()) = None"
    using wrapSuccessToError_nil_iff
        [where request = "mock_rpc (\<lambda>q. (\<lparr>GetSuccess = True\<rparr>, None))" and ctx = "()"
           and parameters = "SetLayerRequest 3" and w = "()", OF h1]
    by simp
  then have a: "wrapSuccessToError () (mock_rpc (\<lambda>q. (\<lparr>GetSuccess = True\<rparr>, None)))
          (SetLayerRequest 3) () = (None, ())"
    by (simp add: prod_eq_iff)
  show ?thesis
    using a wrapSuccessToError_nil_iff
        [where request = "mock_rpc (\<lambda>q. (\<lparr>GetSuccess = True\<rparr>,
             Some (External ''connection refused'')))" and ctx = "()"
           and parameters = IncreaseBrightnessRequest and w = "()", OF h2]
    by simp
qed

section \<open>Claims about the default connection\<close>

text \<open>
  Claim C3. Off Windows, with \<open>CONFIG_DIR\<close> not in the environment,
  \<open>ConnectDefault\<close> returns no client and an error that names the variable. The
  state of the world is the one it started from, and this holds whatever the dialler
  is: the dialler is not called.
\<close>

theorem ConnectDefault_CONFIG_DIR_unset:
  assumes "GOOS sys \<noteq> ''windows''"
    and "environ sys ''CONFIG_DIR'' = None"
  shows "ConnectDefault sys w =
           ((None, Some (ErrorsNew ''environment key \"CONFIG_DIR\" not set'')), w) \<and>
         ConnectDefault (sys\<lparr>grpc_NewClient := nc\<rparr>) w =
           ((None, Some (ErrorsNew ''environment key \"CONFIG_DIR\" not set'')), w) \<and>
         sublist ''CONFIG_DIR'' (Error (ErrorsNew ''environment key \"CONFIG_DIR\" not set''))"
proof -
  have "sublist ''CONFIG_DIR'' (''environment key \"'' @ ''CONFIG_DIR'' @ ''\" not set'')"
    by (rule sublist_appendI)
  then show ?thesis
    using assms by (simp add: ConnectDefault_def os_Getenv_def)
qed

text \<open>On Linux with only \<open>HOME\<close> set, the log of dialled targets stays empty.\<close>

theorem ConnectDefault_CONFIG_DIR_unset_witness:
  "GOOS (mock_platform ''linux'' [''HOME'' \<mapsto> ''/home/u'']) \<noteq> ''windows'' \<and>
   environ (mock_platform ''linux'' [''HOME'' \<mapsto> ''/home/u'']) ''CONFIG_DIR'' = None \<and>
   ConnectDefault (mock_platform ''linux'' [''HOME'' \<mapsto> ''/home/u'']) ([], ()) =
     ((None, Some (ErrorsNew ''environment key \"CONFIG_DIR\" not set'')), ([], ()))"
proof -
  have h1: "GOOS (mock_platform ''linux'' [''HOME'' \<mapsto> ''/home/u'']) \<noteq> ''windows''"
    by (simp add: mock_platform_def)
  have h2: "environ (mock_platform ''linux'' [''HOME'' \<mapsto> ''/home/u'']) ''CONFIG_DIR'' = None"
    by (simp add: mock_platform_def)
  show ?thesis
    using h1 h2
      ConnectDefault_CONFIG_DIR_unset [OF h1 h2, where w = "([], ())" and nc = "dial_traced mock_dial"]
    by blast
qed

text \<open>
  Claim C4, as stated, fails where \<open>CONFIG_DIR\<close> is set to the empty string:
  \<open>os.Getenv\<close> then returns the empty string, the guard of \<open>ConnectDefault\<close>
  returns the error, and nothing is dialled, while connecting to the joined path
  would dial \<open>.keymapp/keymapp.sock\<close>.
\<close>

theorem ConnectDefault_empty_CONFIG_DIR_counterexample:
  "environ (mock_platform ''linux'' [''CONFIG_DIR'' \<mapsto> '''']) ''CONFIG_DIR'' = Some '''' \<and>
   ConnectDefault (mock_platform ''linux'' [''CONFIG_DIR'' \<mapsto> '''']) ([], ()) =
     ((None, Some (ErrorsNew ''environment key \"CONFIG_DIR\" not set'')), ([], ())) \<and>
   snd (Connect (mock_platform ''linux'' [''CONFIG_DIR'' \<mapsto> ''''])
          (filepath_Join ['''', ''.keymapp'', ''keymapp.sock'']) ([], ())) =
     ([''.keymapp/keymapp.sock''], ()) \<and>
   ConnectDefault (mock_platform ''linux'' [''CONFIG_DIR'' \<mapsto> '''']) ([], ()) \<noteq>
     Connect (mock_platform ''linux'' [''CONFIG_DIR'' \<mapsto> ''''])
       (filepath_Join ['''', ''.keymapp'', ''keymapp.sock'']) ([], ())"
  by (simp add: mock_platform_def ConnectDefault_def os_Getenv_def Connect_def dial_traced_def
      mock_dial_def filepath_Join_def Clean_def)

text \<open>
  \<open>Connect\<close> calls the dialler once, with the path it was given.
\<close>

lemma Connect_dial_traced:
  assumes "grpc_NewClient sys = dial_traced nc"
  shows "fst (snd (Connect sys path (log, w))) = log @ [path]"
  using assms by (simp add: Connect_def dial_traced_def split: prod.splits)

text \<open>
  Claim C4, amended. On Windows \<open>ConnectDefault\<close> is \<open>Connect\<close> to
  \<open>localhost:50051\<close>. On any other platform, with \<open>CONFIG_DIR\<close> set to a
  non-empty value, it is \<open>Connect\<close> to \<open>filepath.Join\<close> of that value,
  \<open>.keymapp\<close> and \<open>keymapp.sock\<close>. In both cases an instrumented dialler logs
  exactly that target.
\<close>

theorem ConnectDefault_endpoint:
  "(GOOS sys = ''windows'' \<longrightarrow>
      ConnectDefault sys (log, w) = Connect sys ''localhost:50051'' (log, w) \<and>
      (grpc_NewClient sys = dial_traced nc \<longrightarrow>
         fst (snd (ConnectDefault sys (log, w))) = log @ [''localhost:50051''])) \<and>
   (GOOS sys \<noteq> ''windows'' \<and> environ sys ''CONFIG_DIR'' = Some dir \<and> dir \<noteq> [] \<longrightarrow>
      ConnectDefault sys (log, w) =
        Connect sys (filepath_Join [dir, ''.keymapp'', ''keymapp.sock'']) (log, w) \<and>
      (grpc_NewClient sys = dial_traced nc \<longrightarrow>
         fst (snd (ConnectDefault sys (log, w))) =
           log @ [filepath_Join [dir, ''.keymapp'', ''keymapp.sock'']]))"
  by (simp add: ConnectDefault_def os_Getenv_def Connect_dial_traced)

text \<open>Windows, and Linux with \<open>CONFIG_DIR\<close> set to \<open>/home/u\<close>.\<close>

theorem ConnectDefault_endpoint_witness:
  "fst (snd (ConnectDefault (mock_platform ''windows'' Map.empty) ([], ()))) =
     [''localhost:50051''] \<and>
   fst (snd (ConnectDefault (mock_platform ''linux'' [''CONFIG_DIR'' \<mapsto> ''/home/u''])
     ([], ()))) = [''/home/u/.keymapp/keymapp.sock'']"
proof -
  have j: "filepath_Join [''/home/u'', ''.keymapp'', ''keymapp.sock''] =
      ''/home/u/.keymapp/keymapp.sock''"
    by (simp add: filepath_Join_def Clean_def)
  have g1: "GOOS (mock_platform ''windows'' Map.empty) = ''windows''"
    by (simp add: mock_platform_def)
  have d1: "grpc_NewClient (mock_platform ''windows'' Map.empty) = dial_traced mock_dial"
    by (simp add: mock_platform_def)
  have "fst (snd (ConnectDefault (mock_platform ''windows'' Map.empty) ([], ()))) =
     [] @ [''localhost:50051'']"
    using g1 d1
      ConnectDefault_endpoint
        [where sys = "mock_platform ''windows'' Map.empty" and log = "[]" and w = "()"
           and nc = mock_dial and dir = "[]"]
    by blast
  then have a: "fst (snd (ConnectDefault (mock_platform ''windows'' Map.empty) ([], ()))) =
     [''localhost:50051'']"
    by simp
  have g2: "GOOS (mock_platform ''linux'' [''CONFIG_DIR'' \<mapsto> ''/home/u'']) \<noteq> ''windows''"
    by (simp add: mock_platform_def)
  have e2: "environ (mock_platform ''linux'' [''CONFIG_DIR'' \<mapsto> ''/home/u'']) ''CONFIG_DIR'' =
      Some ''/home/u''"
    by (simp add: mock_platform_def)
  have d2: "grpc_NewClient (mock_platform ''linux'' [''CONFIG_DIR'' \<mapsto> ''/home/u'']) =
      dial_traced mock_dial"
    by (simp add: mock_platform_def)
  have n2: "''/home/u'' \<noteq> []"
    by simp
  have "fst (snd (ConnectDefault (mock_platform ''linux'' [''CONFIG_DIR'' \<mapsto> ''/home/u''])
     ([], ()))) = [] @ [filepath_Join [''/home/u'', ''.keymapp'', ''keymapp.sock'']]"
    using g2 e2 d2 n2
      ConnectDefault_endpoint
        [where sys = "mock_platform ''linux'' [''CONFIG_DIR'' \<mapsto> ''/home/u'']" and log = "[]"
           and w = "()" and nc = mock_dial and dir = "''/home/u''"]
    by blast
  then have b: "fst (snd (ConnectDefault (mock_platform ''linux'' [''CONFIG_DIR'' \<mapsto> ''/home/u''])
     ([], ()))) = [''/home/u/.keymapp/keymapp.sock'']"
    by (simp add: j)
  from a b show ?thesis by simp
qed

section \<open>Claims about the benign errors\<close>

text \<open>
  The filter after the normalizer, shared by the three methods, with
  \<open>strings.Contains\<close> read as the sublist relation.
\<close>

lemma post_filter_cases:
  assumes "wrapSuccessToError ctx f q w = (err, w')"
  shows "(case wrapSuccessToError ctx f q w of
            (err, w') \<Rightarrow>
              if err \<noteq> None \<and> \<not> Contains (Error (the err)) benign then (err, w')
              else (None, w')) =
         (case err of
            None \<Rightarrow> None
          | Some e \<Rightarrow> if sublist benign (Error e) then None else Some e, w')"
  using assms by (simp add: Contains_sublist split: option.splits)

text \<open>
  Claim C5. Whatever the normalizer returns to \<open>ConnectAnyKeyboard\<close> or
  \<open>ConnectKeyboardIndex\<close>: an error whose message contains
  \<open>keyboard already connected\<close> becomes nil, every other error is returned as it
  is, and nil stays nil.
\<close>

theorem Connect_already_connected_suppressed:
  "(wrapSuccessToError ctx (api_ConnectAnyKeyboard (client c)) ConnectAnyKeyboardRequest w =
      (err, w') \<longrightarrow>
    ConnectAnyKeyboard c ctx w =
      (case err of
         None \<Rightarrow> None
       | Some e \<Rightarrow>
           if sublist ''keyboard already connected'' (Error e) then None else Some e, w')) \<and>
   (wrapSuccessToError ctx (api_ConnectKeyboard (client c)) (ConnectKeyboardRequest kid) w =
      (err, w') \<longrightarrow>
    ConnectKeyboardIndex c ctx kid w =
      (case err of
         None \<Rightarrow> None
       | Some e \<Rightarrow>
           if sublist ''keyboard already connected'' (Error e) then None else Some e, w'))"
proof (intro conjI impI)
  assume n: "wrapSuccessToError ctx (api_ConnectAnyKeyboard (client c)) ConnectAnyKeyboardRequest w =
      (err, w')"
  show "ConnectAnyKeyboard c ctx w =
      (case err of
         None \<Rightarrow> None
       | Some e \<Rightarrow>
           if sublist ''keyboard already connected'' (Error e) then None else Some e, w')"
    unfolding ConnectAnyKeyboard_def by (rule post_filter_cases [OF n])
next
  assume n: "wrapSuccessToError ctx (api_ConnectKeyboard (client c)) (ConnectKeyboardRequest kid) w =
      (err, w')"
  show "ConnectKeyboardIndex c ctx kid w =
      (case err of
         None \<Rightarrow> None
       | Some e \<Rightarrow>
           if sublist ''keyboard already connected'' (Error e) then None else Some e, w')"
    unfolding ConnectKeyboardIndex_def by (rule post_filter_cases [OF n])
qed

text \<open>
  A service that reports the keyboard as already connected, and one that answers
  success = false.
\<close>

theorem Connect_already_connected_suppressed_witness:
  "ConnectAnyKeyboard
     \<lparr>client = mock_client (\<lambda>q. (\<lparr>GetSuccess = False\<rparr>,
        Some (External ''rpc error: code = Unknown desc = keyboard already connected''))),
      connection = ()\<rparr> () () = (None, ()) \<and>
   ConnectKeyboardIndex
     \<lparr>client = mock_client (\<lambda>q. (\<lparr>GetSuccess = False\<rparr>, None)), connection = ()\<rparr> () 1 () =
     (Some (FmtErrorf ''unsuccessful *api.ConnectKeyboardRequest''), ())"
proof -
  let ?c1 = "\<lparr>client = mock_client (\<lambda>q. (\<lparr>GetSuccess = False\<rparr>,
        Some (External ''rpc error: code = Unknown desc = keyboard already connected''))),
      connection = ()\<rparr>"
  let ?c2 = "\<lparr>client = mock_client (\<lambda>q. (\<lparr>GetSuccess = False\<rparr>, None)), connection = ()\<rparr>"
  have n1: "wrapSuccessToError () (api_ConnectAnyKeyboard (client ?c1))
      ConnectAnyKeyboardRequest () =
      (Some (External ''rpc error: code = Unknown desc = keyboard already connected''), ())"
    by (simp add: wrapSuccessToError_def mock_client_def mock_rpc_def)
  have n2: "wrapSuccessToError () (api_ConnectKeyboard (client ?c2))
      (ConnectKeyboardRequest 1) () =
      (Some (FmtErrorf ''unsuccessful *api.ConnectKeyboardRequest''), ())"
    by (simp add: wrapSuccessToError_def mock_client_def mock_rpc_def)
  have s1: "sublist ''keyboard already connected''
      (''rpc error: code = Unknown desc = '' @ ''keyboard already connected'' @ [])"
    by (rule sublist_appendI)
  have s2: "\<not> sublist ''keyboard already connected'' ''unsuccessful *api.ConnectKeyboardRequest''"
    by (simp add: Contains_sublist [symmetric])
  have a: "ConnectAnyKeyboard ?c1 () () = (None, ())"
    using n1 s1
      Connect_already_connected_suppressed
        [where c = ?c1 and ctx = "()" and w = "()" and w' = "()"
           and err = "Some (External ''rpc error: code = Unknown desc = keyboard already connected'')"]
    by simp
  have b: "ConnectKeyboardIndex ?c2 () 1 () =
     (Some (FmtErrorf ''unsuccessful *api.ConnectKeyboardRequest''), ())"
    using n2 s2
      Connect_already_connected_suppressed
        [where c = ?c2 and ctx = "()" and w = "()" and w' = "()" and kid = 1
           and err = "Some (FmtErrorf ''unsuccessful *api.ConnectKeyboardRequest'')"]
    by simp
  from a b show ?thesis by simp
qed

text \<open>
  Claim C6. Whatever the normalizer returns to \<open>DisconnectKeyboard\<close>: an error whose
  message contains \<open>no keyboard is connected\<close> becomes nil, every other error is
  returned as it is, and nil stays nil.
\<close>

theorem Disconnect_not_connected_suppressed:
  "wrapSuccessToError ctx (api_DisconnectKeyboard (client c)) DisconnectKeyboardRequest w =
      (err, w') \<longrightarrow>
    DisconnectKeyboard c ctx w =
      (case err of
         None \<Rightarrow> None
       | Some e \<Rightarrow>
           if sublist ''no keyboard is connected'' (Error e) then None else Some e, w')"
proof
  assume n: "wrapSuccessToError ctx (api_DisconnectKeyboard (client c)) DisconnectKeyboardRequest w =
      (err, w')"
  show "DisconnectKeyboard c ctx w =
      (case err of
         None \<Rightarrow> None
       | Some e \<Rightarrow>
           if sublist ''no keyboard is connected'' (Error e) then None else Some e, w')"
    unfolding DisconnectKeyboard_def by (rule post_filter_cases [OF n])
qed

text \<open>
  A service with no keyboard connected, and a service that cannot be reached.
\<close>

theorem Disconnect_not_connected_suppressed_witness:
  "DisconnectKeyboard
     \<lparr>client = mock_client (\<lambda>q. (\<lparr>GetSuccess = False\<rparr>,
        Some (External ''rpc error: code = Unknown desc = no keyboard is connected''))),
      connection = ()\<rparr> () () = (None, ()) \<and>
   DisconnectKeyboard
     \<lparr>client = mock_client (\<lambda>q. (\<lparr>GetSuccess = False\<rparr>,
        Some (External ''rpc error: code = Unavailable desc = connection refused''))),
      connection = ()\<rparr> () () =
     (Some (External ''rpc error: code = Unavailable desc = connection refused''), ())"
proof -
  let ?c1 = "\<lparr>client = mock_client (\<lambda>q. (\<lparr>GetSuccess = False\<rparr>,
        Some (External ''rpc error: code = Unknown desc = no keyboard is connected''))),
      connection = ()\<rparr>"
  let ?c2 = "\<lparr>client = mock_client (\<lambda>q. (\<lparr>GetSuccess = False\<rparr>,
        Some (External ''rpc error: code = Unavailable desc = connection refused''))),
      connection = ()\<rparr>"
  have n1: "wrapSuccessToError () (api_DisconnectKeyboard (client ?c1))
      DisconnectKeyboardRequest () =
      (Some (External ''rpc error: code = Unknown desc = no keyboard is connected''), ())"
    by (simp add: wrapSuccessToError_def mock_client_def mock_rpc_def)
  have n2: "wrapSuccessToError () (api_DisconnectKeyboard (client ?c2))
      DisconnectKeyboardRequest () =
      (Some (External ''rpc error: code = Unavailable desc = connection refused''), ())"
    by (simp add: wrapSuccessToError_def mock_client_def mock_rpc_def)
  have s1: "sublist ''no keyboard is connected''
      (''rpc error: code = Unknown desc = '' @ ''no keyboard is connected'' @ [])"
    by (rule sublist_appendI)
  have s2: "\<not> sublist ''no keyboard is connected''
      ''rpc error: code = Unavailable desc = connection refused''"
    by (simp add: Contains_sublist [symmetric])
  have a: "DisconnectKeyboard ?c1 () () = (None, ())"
    using n1 s1
      Disconnect_not_connected_suppressed
        [where c = ?c1 and ctx = "()" and w = "()" and w' = "()"
           and err = "Some (External ''rpc error: code = Unknown desc = no keyboard is connected'')"]
    by simp
  have b: "DisconnectKeyboard ?c2 () () =
     (Some (External ''rpc error: code = Unavailable desc = connection refused''), ())"
    using n2 s2
      Disconnect_not_connected_suppressed
        [where c = ?c2 and ctx = "()" and w = "()" and w' = "()"
           and err = "Some (External ''rpc error: code = Unavailable desc = connection refused'')"]
    by simp
  from a b show ?thesis by simp
qed

text \<open>
  An error of the call itself passes the normalizer as it is, so the filter sees its
  message.
\<close>

lemma post_filter_benign:
  assumes "f ctx q w = ((res, Some e), w')"
    and "Error e = pre @ benign @ post"
  shows "(case wrapSuccessToError ctx f q w of
            (err, w') \<Rightarrow>
              if err \<noteq> None \<and> \<not> Contains (Error (the err)) benign then (err, w')
              else (None, w')) = (None, w')"
proof -
  have "wrapSuccessToError ctx f q w = (Some e, w')"
    using assms(1) by (simp add: wrapSuccessToError_cases)
  moreover have "Contains (Error e) benign"
    by (simp only: assms(2) Contains_append)
  ultimately show ?thesis by simp
qed

text \<open>
  Claim C9. The filter looks for the benign text anywhere in the message: when the call
  itself fails with an error whose message is some prefix, the benign text and some
  suffix, the method returns nil. This holds for \<open>ConnectAnyKeyboard\<close> and
  \<open>ConnectKeyboardIndex\<close> with \<open>keyboard already connected\<close> and for
  \<open>DisconnectKeyboard\<close> with \<open>no keyboard is connected\<close>.
\<close>

theorem benign_substring_suppressed:
  "(api_ConnectAnyKeyboard (client c) ctx ConnectAnyKeyboardRequest w = ((res, Some e), w') \<and>
    Error e = pre @ ''keyboard already connected'' @ post \<longrightarrow>
      ConnectAnyKeyboard c ctx w = (None, w')) \<and>
   (api_ConnectKeyboard (client c) ctx (ConnectKeyboardRequest kid) w = ((res, Some e), w') \<and>
    Error e = pre @ ''keyboard already connected'' @ post \<longrightarrow>
      ConnectKeyboardIndex c ctx kid w = (None, w')) \<and>
   (api_DisconnectKeyboard (client c) ctx DisconnectKeyboardRequest w = ((res, Some e), w') \<and>
    Error e = pre @ ''no keyboard is connected'' @ post \<longrightarrow>
      DisconnectKeyboard c ctx w = (None, w'))"
proof (intro conjI impI; elim conjE)
  assume "api_ConnectAnyKeyboard (client c) ctx ConnectAnyKeyboardRequest w = ((res, Some e), w')"
    and "Error e = pre @ ''keyboard already connected'' @ post"
  then show "ConnectAnyKeyboard c ctx w = (None, w')"
    unfolding ConnectAnyKeyboard_def by (rule post_filter_benign)
next
  assume "api_ConnectKeyboard (client c) ctx (ConnectKeyboardRequest kid) w = ((res, Some e), w')"
    and "Error e = pre @ ''keyboard already connected'' @ post"
  then show "ConnectKeyboardIndex c ctx kid w = (None, w')"
    unfolding ConnectKeyboardIndex_def by (rule post_filter_benign)
next
  assume "api_DisconnectKeyboard (client c) ctx DisconnectKeyboardRequest w = ((res, Some e), w')"
    and "Error e = pre @ ''no keyboard is connected'' @ post"
  then show "DisconnectKeyboard c ctx w = (None, w')"
    unfolding DisconnectKeyboard_def by (rule post_filter_benign)
qed

text \<open>Two failures of the call whose messages hold the benign text in the middle.\<close>

theorem benign_substring_suppressed_witness:
  "ConnectKeyboardIndex
     \<lparr>client = mock_client (\<lambda>q. (\<lparr>GetSuccess = True\<rparr>,
        Some (External ''transport: keyboard already connected (retry later)''))),
      connection = ()\<rparr> () 7 () = (None, ()) \<and>
   DisconnectKeyboard
     \<lparr>client = mock_client (\<lambda>q. (\<lparr>GetSuccess = True\<rparr>,
        Some (External ''dial unix: no keyboard is connected to the hub''))),
      connection = ()\<rparr> () () = (None, ())"
proof -
  let ?e1 = "External ''transport: keyboard already connected (retry later)''"
  let ?e2 = "External ''dial unix: no keyboard is connected to the hub''"
  let ?c1 = "\<lparr>client = mock_client (\<lambda>q. (\<lparr>GetSuccess = True\<rparr>, Some ?e1)), connection = ()\<rparr>"
  let ?c2 = "\<lparr>client = mock_client (\<lambda>q. (\<lparr>GetSuccess = True\<rparr>, Some ?e2)), connection = ()\<rparr>"
  have r1: "api_ConnectKeyboard (client ?c1) () (ConnectKeyboardRequest 7) () =
      ((\<lparr>GetSuccess = True\<rparr>, Some ?e1), ())"
    by (simp add: mock_client_def mock_rpc_def)
  have m1: "Error ?e1 = ''transport: '' @ ''keyboard already connected'' @ '' (retry later)''"
    by simp
  have r2: "api_DisconnectKeyboard (client ?c2) () DisconnectKeyboardRequest () =
      ((\<lparr>GetSuccess = True\<rparr>, Some ?e2), ())"
    by (simp add: mock_client_def mock_rpc_def)
  have m2: "Error ?e2 = ''dial unix: '' @ ''no keyboard is connected'' @ '' to the hub''"
    by simp
  have a: "ConnectKeyboardIndex ?c1 () 7 () = (None, ())"
    using r1 m1
      benign_substring_suppressed
        [where c = ?c1 and ctx = "()" and w = "()" and w' = "()" and kid = 7 and e = ?e1
           and res = "\<lparr>GetSuccess = True\<rparr>" and pre = "''transport: ''"
           and post = "'' (retry later)''"]
    by blast
  have b: "DisconnectKeyboard ?c2 () () = (None, ())"
    using r2 m2
      benign_substring_suppressed
        [where c = ?c2 and ctx = "()" and w = "()" and w' = "()" and e = ?e2
           and res = "\<lparr>GetSuccess = True\<rparr>" and pre = "''dial unix: ''"
           and post = "'' to the hub''"]
    by blast
  from a b show ?thesis by simp
qed

section \<open>Claims about the LED methods\<close>

text \<open>The instrumented client's stubs are the instrumented stubs.\<close>

lemma traced_client_fields:
  "api_SetRGBLed (traced_client k) = traced (api_SetRGBLed k)"
  "api_SetRGBAll (traced_client k) = traced (api_SetRGBAll k)"
  "api_SetStatusLed (traced_client k) = traced (api_SetStatusLed k)"
  by (simp_all add: traced_client_def)

text \<open>
  Claim C7. Let \<open>rs\<close> be the normalizer's results when the request for every LED of
  \<open>leds\<close> is sent in order, none skipped. Then \<open>SetRGBLed\<close> returns
  \<open>errors.Join\<close> of \<open>rs\<close> and leaves the same state; an instrumented stub logs
  exactly one request per LED, in order; and when exactly one of the results is an
  error and all others are nil, the result is a joined error holding that one error,
  with its message.
\<close>

theorem SetRGBLed_aggregates:
  assumes "RGBA color = (r, g, b, a)"
    and "responses ctx (api_SetRGBLed (client c))
           (map (\<lambda>led. SetRGBLedRequest led (int32 r) (int32 g) (int32 b) 0) leds) w = (rs, w')"
  shows "SetRGBLed c ctx color leds w = (errors_Join rs, w') \<and>
         SetRGBLed \<lparr>client = traced_client (client c), connection = connection c\<rparr> ctx color leds
             (log, w) =
           (errors_Join rs,
            (log @ map (\<lambda>led. SetRGBLedRequest led (int32 r) (int32 g) (int32 b) 0) leds, w')) \<and>
         length rs = length leds \<and>
         (\<forall>i e. i < length leds \<and> rs ! i = Some e \<and> (\<forall>j<length leds. j \<noteq> i \<longrightarrow> rs ! j = None) \<longrightarrow>
            errors_Join rs = Some (JoinError [e]) \<and> Error (JoinError [e]) = Error e)"
proof -
  let ?reqs = "map (\<lambda>led. SetRGBLedRequest led (int32 r) (int32 g) (int32 b) 0) leds"
  have plain: "SetRGBLed c ctx color leds w = (errors_Join rs, w')"
    using assms by (simp add: SetRGBLed_responses)
  have "responses ctx (traced (api_SetRGBLed (client c))) ?reqs (log, w) = (rs, (log @ ?reqs, w'))"
    using assms(2) by (simp add: responses_traced)
  then have logged:
    "SetRGBLed \<lparr>client = traced_client (client c), connection = connection c\<rparr> ctx color leds
       (log, w) = (errors_Join rs, (log @ ?reqs, w'))"
    using assms(1) by (simp add: SetRGBLed_responses traced_client_fields)
  have len: "length rs = length leds"
    using length_responses [of ctx "api_SetRGBLed (client c)" ?reqs w] assms(2) by simp
  have one: "errors_Join rs = Some (JoinError [e]) \<and> Error (JoinError [e]) = Error e"
    if "i < length leds \<and> rs ! i = Some e \<and> (\<forall>j<length leds. j \<noteq> i \<longrightarrow> rs ! j = None)"
    for i e
  proof -
    from that len have "i < length rs" and "rs ! i = Some e"
      and "\<forall>j<length rs. j \<noteq> i \<longrightarrow> rs ! j = None"
      by simp_all
    then have "errors_Join rs = Some (JoinError [e])"
      by (rule errors_Join_single)
    then show ?thesis by simp
  qed
  from plain logged len one show ?thesis by blast
qed

text \<open>Three LEDs, of which the second cannot be set: three requests, one error.\<close>

theorem SetRGBLed_aggregates_witness:
  "SetRGBLed \<lparr>client = traced_client (mock_client (led_fails 2)), connection = ()\<rparr> ()
      \<lparr>RGBA = (0xFFFF, 0, 0x8080, 0xFFFF)\<rparr> [1, 2, 3] ([], ()) =
     (Some (JoinError [External ''led unreachable'']),
      ([SetRGBLedRequest 1 0xFFFF 0 0x8080 0, SetRGBLedRequest 2 0xFFFF 0 0x8080 0,
        SetRGBLedRequest 3 0xFFFF 0 0x8080 0], ())) \<and>
   Error (JoinError [External ''led unreachable'']) = ''led unreachable''"
proof -
  let ?c = "\<lparr>client = mock_client (led_fails 2), connection = ()\<rparr>"
  let ?col = "\<lparr>RGBA = (0xFFFF, 0, 0x8080, 0xFFFF)\<rparr>"
  let ?rs = "[None, Some (External ''led unreachable''), None]"
  have h1: "RGBA ?col = (0xFFFF, 0, 0x8080, 0xFFFF)"
    by simp
  have h2: "responses () (api_SetRGBLed (client ?c))
      (map (\<lambda>led. SetRGBLedRequest led (int32 0xFFFF) (int32 0) (int32 0x8080) 0) [1, 2, 3]) () =
      (?rs, ())"
    by (simp add: mock_client_def mock_rpc_def led_fails_def wrapSuccessToError_def)
  note t = SetRGBLed_aggregates [where c = ?c and ctx = "()" and color = ?col
      and leds = "[1, 2, 3]" and w = "()" and log = "[]", OF h1 h2]
  have one: "(1::nat) < length [1::int32, 2, 3] \<and> ?rs ! 1 = Some (External ''led unreachable'') \<and>
      (\<forall>j<length [1::int32, 2, 3]. j \<noteq> 1 \<longrightarrow> ?rs ! j = None)"
    by (simp add: nth_Cons' less_Suc_eq)
  have j: "errors_Join ?rs = Some (JoinError [External ''led unreachable''])"
    using t [THEN conjunct2, THEN conjunct2, THEN conjunct2, rule_format, OF one] by simp
  show ?thesis
    using j t [THEN conjunct2, THEN conjunct1]
    by (simp add: int32_def)
qed

text \<open>
  Claim C8. With red, green and blue as \<open>RGBA()\<close> returns them, the requests that
  \<open>SetRGBLed\<close> and \<open>SetRGBAll\<close> issue carry the three values converted to
  \<open>int32\<close>, which keeps every value of the range of \<open>RGBA()\<close>, and the requests
  of \<open>SetRGBLed\<close>, \<open>SetRGBAll\<close> and \<open>SetStatusLED\<close> have sustain 0.
\<close>

theorem colour_channels_and_sustain:
  assumes "RGBA color = (r, g, b, a)"
  shows "fst (snd (SetRGBLed \<lparr>client = traced_client k, connection = conn\<rparr> ctx color leds
             (log, w))) =
           log @ map (\<lambda>led. SetRGBLedRequest led (int32 r) (int32 g) (int32 b) 0) leds \<and>
         fst (snd (SetRGBAll \<lparr>client = traced_client k, connection = conn\<rparr> ctx color (log, w))) =
           log @ [SetRGBAllRequest (int32 r) (int32 g) (int32 b) 0] \<and>
         fst (snd (SetStatusLED \<lparr>client = traced_client k, connection = conn\<rparr> ctx led on
             (log, w))) =
           log @ [SetStatusLedRequest led on 0] \<and>
         (uint r \<le> 0xFFFF \<longrightarrow> sint (int32 r) = uint r) \<and>
         (uint g \<le> 0xFFFF \<longrightarrow> sint (int32 g) = uint g) \<and>
         (uint b \<le> 0xFFFF \<longrightarrow> sint (int32 b) = uint b)"
proof -
  have led: "fst (snd (SetRGBLed \<lparr>client = traced_client k, connection = conn\<rparr> ctx color leds
             (log, w))) =
           log @ map (\<lambda>led. SetRGBLedRequest led (int32 r) (int32 g) (int32 b) 0) leds"
    using assms by (simp add: SetRGBLed_responses responses_traced traced_client_fields)
  have all: "fst (snd (SetRGBAll \<lparr>client = traced_client k, connection = conn\<rparr> ctx color
      (log, w))) = log @ [SetRGBAllRequest (int32 r) (int32 g) (int32 b) 0]"
    using assms by (simp add: SetRGBAll_def wrapSuccessToError_traced traced_client_fields)
  have status: "fst (snd (SetStatusLED \<lparr>client = traced_client k, connection = conn\<rparr> ctx led on
             (log, w))) = log @ [SetStatusLedRequest led on 0]"
    by (simp add: SetStatusLED_def wrapSuccessToError_traced traced_client_fields)
  have val: "sint (int32 x) = uint x" if "uint x \<le> 0xFFFF" for x
  proof (rule int32_value)
    have "(0xFFFF::int) < 2 ^ 31" by simp
    with that show "uint x < 2 ^ 31" by (rule le_less_trans)
  qed
  from led all status val show ?thesis by blast
qed

text \<open>One colour for all LEDs, and the status LED 4 switched on.\<close>

theorem colour_channels_and_sustain_witness:
  "fst (snd (SetRGBAll \<lparr>client = traced_client (mock_client (led_fails 2)), connection = ()\<rparr> ()
      \<lparr>RGBA = (0xFFFF, 0, 0x8080, 0xFFFF)\<rparr> ([], ()))) =
     [SetRGBAllRequest 0xFFFF 0 0x8080 0] \<and>
   fst (snd (SetStatusLED \<lparr>client = traced_client (mock_client (led_fails 2)), connection = ()\<rparr> ()
      4 True ([], ()))) = [SetStatusLedRequest 4 True 0] \<and>
   sint (int32 0x8080) = 0x8080"
proof -
  let ?col = "\<lparr>RGBA = (0xFFFF, 0, 0x8080, 0xFFFF)\<rparr>"
  have h: "RGBA ?col = (0xFFFF, 0, 0x8080, 0xFFFF)"
    by simp
  note t = colour_channels_and_sustain [where color = ?col and k = "mock_client (led_fails 2)"
      and conn = "()" and ctx = "()" and log = "[]" and w = "()" and led = 4 and on = True
      and leds = "[]", OF h]
  have u: "uint (0x8080 :: uint32) \<le> 0xFFFF"
    by simp
  have "fst (snd (SetRGBAll \<lparr>client = traced_client (mock_client (led_fails 2)),
      connection = ()\<rparr> () ?col ([], ()))) =
      [] @ [SetRGBAllRequest (int32 0xFFFF) (int32 0) (int32 0x8080) 0]"
    by (rule t [THEN conjunct2, THEN conjunct1])
  moreover have "fst (snd (SetStatusLED \<lparr>client = traced_client (mock_client (led_fails 2)),
      connection = ()\<rparr> () 4 True ([], ()))) = [] @ [SetStatusLedRequest 4 True 0]"
    by (rule t [THEN conjunct2, THEN conjunct2, THEN conjunct1])
  moreover have "sint (int32 0x8080) = uint (0x8080 :: uint32)"
    using u by (rule t [THEN conjunct2, THEN conjunct2, THEN conjunct2, THEN conjunct2,
      THEN conjunct2, THEN mp])
  ultimately show ?thesis
    by (simp add: int32_def)
qed

text \<open>
  Claim C10. With no LED given, \<open>SetRGBLed\<close> returns nil and leaves the state as
  it was; an instrumented stub logs nothing.
\<close>

theorem SetRGBLed_no_leds:
  "SetRGBLed c ctx color [] w = (None, w) \<and>
   SetRGBLed \<lparr>client = traced_client k, connection = conn\<rparr> ctx color [] (log, w0) =
     (None, (log, w0))"
  by (simp add: SetRGBLed_def errors_Join_Nil split: prod.splits)

text \<open>The empty call on the mocked service.\<close>

theorem SetRGBLed_no_leds_witness:
  "SetRGBLed \<lparr>client = traced_client (mock_client (led_fails 2)), connection = ()\<rparr> ()
      \<lparr>RGBA = (0xFFFF, 0, 0x8080, 0xFFFF)\<rparr> [] ([], ()) = (None, ([], ()))"
  using SetRGBLed_no_leds
    [where k = "mock_client (led_fails 2)" and conn = "()" and ctx = "()"
       and color = "\<lparr>RGBA = (0xFFFF, 0, 0x8080, 0xFFFF)\<rparr>" and log = "[]" and ?w0.0 = "()"
       and c = "\<lparr>client = mock_client (led_fails 2), connection = ()\<rparr>" and w = "()"]
  by simp

end
